theory Spec2Isabelle
  imports Complex_Main "HOL-Library.Sublist" "HOL-Library.Word"
begin

section \<open>Data frames\<close>

text \<open>
  The dashboard script \<^verbatim>\<open>Hello.py\<close> works on pandas data frames. A frame is
  modelled by its column labels and its rows, in order. A row has one field for every
  column the script reads or writes.
  \<^item> \<open>Entity\<close> is a string and \<open>Year\<close> an integer.
  \<^item> \<open>Health_Impact\<close> is a label or null: a blank cell of the file is read as a null,
    here \<open>None\<close>.
  \<^item> \<open>Premature_Death_Count\<close> is a column of 64-bit integers: a word, whose sums wrap
    around; \<open>sint\<close> reads the signed value.
  \<^item> \<open>Total_discharges\<close>, \<open>latitude\<close> and \<open>longitude\<close> are columns of 64-bit floats. A
    cell holds the real number the float stands for. What float arithmetic makes of a
    list of cells is not computed here: the sum and the mean of floats are parameters
    of the model (\<open>float64\<close> below).
  \<^item> The three derived fields are \<open>None\<close> where pandas holds a null or where the column
    has not been written yet; \<open>columns\<close> says which labels the frame has.
\<close>

record row =
  Entity :: string
  Year :: int
  Health_Impact :: "string option"
  Premature_Death_Count :: "64 word"
  Total_discharges :: real
  latitude :: "real option"
  longitude :: "real option"
  color :: "nat list option"

record frame =
  columns :: "string list"
  rows :: "row list"

text \<open>\<^verbatim>\<open>df[c]\<close>: the series of a column, one value per row.\<close>

definition getitem :: "(row \<Rightarrow> 'a) \<Rightarrow> frame \<Rightarrow> 'a list" where
  "getitem c df = map c (rows df)"

text \<open>
  \<^verbatim>\<open>s >= v\<close>, \<^verbatim>\<open>s <= v\<close>, \<^verbatim>\<open>s.isin(vs)\<close> and \<^verbatim>\<open>a & b\<close>: boolean series, element by element.
  For \<^verbatim>\<open>isin\<close> a null cell is found in a list that holds a null.
\<close>

definition series_ge :: "int list \<Rightarrow> int \<Rightarrow> bool list" where
  "series_ge s v = map (\<lambda>x. x \<ge> v) s"

definition series_le :: "int list \<Rightarrow> int \<Rightarrow> bool list" where
  "series_le s v = map (\<lambda>x. x \<le> v) s"

definition isin :: "'a list \<Rightarrow> 'a list \<Rightarrow> bool list" where
  "isin s vs = map (\<lambda>x. x \<in> set vs) s"

definition series_and :: "bool list \<Rightarrow> bool list \<Rightarrow> bool list" where
  "series_and a b = map2 (\<and>) a b"

text \<open>
  \<^verbatim>\<open>df[mask]\<close>: a new frame with the same columns and the rows at which the mask is true.
  Every mask of the script is computed from the frame it selects from, so the two have
  the same length.
\<close>

definition getitem_mask :: "frame \<Rightarrow> bool list \<Rightarrow> frame" where
  "getitem_mask df m = df\<lparr>rows := map fst (filter snd (zip (rows df) m))\<rparr>"

text \<open>
  \<^verbatim>\<open>df[c] = s\<close>: an existing label keeps its place, a new one is appended; every row takes
  its value of the series.
\<close>

definition add_label :: "string \<Rightarrow> string list \<Rightarrow> string list" where
  "add_label c cs = (if c \<in> set cs then cs else cs @ [c])"

definition setitem :: "string \<Rightarrow> ('a \<Rightarrow> row \<Rightarrow> row) \<Rightarrow> frame \<Rightarrow> 'a list \<Rightarrow> frame" where
  "setitem c upd df s = \<lparr>columns = add_label c (columns df), rows = map2 upd s (rows df)\<rparr>"

text \<open>\<^verbatim>\<open>df.empty\<close>: some axis has length zero.\<close>

definition empty :: "frame \<Rightarrow> bool" where
  "empty df = (rows df = [] \<or> columns df = [])"

text \<open>\<^verbatim>\<open>s.unique()\<close>: the distinct values in the order in which they first occur, a null among them.\<close>

definition unique :: "'a list \<Rightarrow> 'a list" where
  "unique s = rev (remdups (rev s))"

text \<open>\<^verbatim>\<open>s.min()\<close> and \<^verbatim>\<open>s.max()\<close> of a series of integers that is not empty.\<close>

definition series_min :: "int list \<Rightarrow> int" where
  "series_min s = fold min (tl s) (hd s)"

definition series_max :: "int list \<Rightarrow> int" where
  "series_max s = fold max (tl s) (hd s)"

text \<open>
  The float arithmetic of the libraries: what the sum and the mean of a list of floats
  come to, rounding included. The model leaves both open.
\<close>

record float64 =
  float_sum :: "real list \<Rightarrow> real"
  float_mean :: "real list \<Rightarrow> real"

text \<open>\<^verbatim>\<open>s.dropna()\<close>: the values of a series that are not null.\<close>

definition dropna :: "'a option list \<Rightarrow> 'a list" where
  "dropna s = concat (map (\<lambda>v. case v of None \<Rightarrow> [] | Some x \<Rightarrow> [x]) s)"

text \<open>\<^verbatim>\<open>s.mean()\<close> skips nulls and is null when nothing is left.\<close>

definition mean :: "float64 \<Rightarrow> real option list \<Rightarrow> real option" where
  "mean np s = (let xs = dropna s in if xs = [] then None else Some (float_mean np xs))"

text \<open>
  \<^verbatim>\<open>df.groupby(k)[f].sum().reset_index()\<close>: one row per distinct key, keys ascending, with
  the sum over the rows of that key, which are taken in the order of the frame. The
  sum is the argument \<open>agg\<close>, since it depends on the type of the column.
\<close>

definition groupby_agg :: "(row \<Rightarrow> int) \<Rightarrow> (row list \<Rightarrow> 'a) \<Rightarrow> frame \<Rightarrow> (int \<times> 'a) list" where
  "groupby_agg k agg df =
     map (\<lambda>y. (y, agg (filter (\<lambda>r. k r = y) (rows df)))) (sort (remdups (getitem k df)))"

text \<open>
  \<^verbatim>\<open>s.value_counts().reset_index()\<close>: every value of the series that is not null with the
  number of its occurrences; nulls are dropped. The result is taken as a mapping from
  value to count: the order of its entries (larger counts first) is not modelled.
\<close>

definition value_counts :: "'a option list \<Rightarrow> ('a \<rightharpoonup> nat)" where
  "value_counts s = (\<lambda>v. if Some v \<in> set s then Some (count_list s (Some v)) else None)"

section \<open>Loading and geocoding (lines 13 to 41)\<close>

text \<open>
  What a call into a library does is an input of the model: it returns a value or raises.
  \<open>FileNotFoundError\<close> is the one exception class the script names; \<open>Exception\<close>
  stands for any other class. Both carry the text of the exception.
\<close>

datatype exn = FileNotFoundError string | Exception string

datatype 'a outcome = Returns 'a | Raises exn

text \<open>
  The script ends early in two ways: \<^verbatim>\<open>st.error(msg)\<close> followed by \<^verbatim>\<open>st.stop()\<close>, or an
  exception that none of its handlers catches.
\<close>

datatype halt = Stopped string | Uncaught exn

definition data_path :: string where
  "data_path = ''data/integrated_water_related_data (1) (1).csv''"

definition data_loaded :: "frame outcome \<Rightarrow> halt + frame" where
  "data_loaded read_csv =
     (case read_csv of
        Returns df \<Rightarrow> Inr df
      | Raises (FileNotFoundError m) \<Rightarrow>
          Inl (Stopped (''Failed to load data from '' @ data_path @
                        ''. Please check the file path and ensure the file exists.''))
      | Raises (Exception m) \<Rightarrow> Inl (Uncaught (Exception m)))"

definition country_coords :: "string \<rightharpoonup> real \<times> real" where
  "country_coords = map_of
     [(''Australia'', (-25.2744, 133.7751)),
      (''Belarus'', (53.7098, 27.9534)),
      (''Belgium'', (50.5039, 4.4699)),
      (''Bulgaria'', (42.7339, 25.4858)),
      (''Costa Rica'', (9.7489, -83.7534)),
      (''Croatia'', (45.1, 15.2)),
      (''Czechia'', (49.8175, 15.4730)),
      (''Denmark'', (56.2639, 9.5018)),
      (''Estonia'', (58.5953, 25.0136))]"

text \<open>\<^verbatim>\<open>country_coords.get(x, (None, None))\<close>\<close>

definition coords_get :: "string \<Rightarrow> real option \<times> real option" where
  "coords_get x = (case country_coords x of Some (la, lo) \<Rightarrow> (Some la, Some lo) | None \<Rightarrow> (None, None))"

definition data_geocoded :: "frame \<Rightarrow> halt + frame" where
  "data_geocoded data =
     (if ''Entity'' \<in> set (columns data) then
        let data1 = setitem ''latitude'' (\<lambda>v r. r\<lparr>latitude := v\<rparr>) data
                      (map (\<lambda>x. fst (coords_get x)) (getitem Entity data));
            data2 = setitem ''longitude'' (\<lambda>v r. r\<lparr>longitude := v\<rparr>) data1
                      (map (\<lambda>x. snd (coords_get x)) (getitem Entity data1))
        in Inr data2
      else Inl (Stopped ''The expected 'Entity' column is not in the dataset.''))"

section \<open>Filtering (lines 69 to 79)\<close>

record criteria =
  year_range :: "int \<times> int"
  entity_filter :: "string list"
  health_impact_filter :: "string option list"

text \<open>
  The three sidebar widgets are the framework's. Each is called with arguments that the
  script computes from the dataset, and returns what the user has selected or raises:
  the slider with the least year, the greatest year and the default range, each
  multiselect with its options, which are its default selection too.
\<close>

record widgets =
  slider :: "int \<Rightarrow> int \<Rightarrow> int \<times> int \<Rightarrow> (int \<times> int) outcome"
  multiselect_entity :: "string list \<Rightarrow> string list outcome"
  multiselect_health :: "string option list \<Rightarrow> string option list outcome"

definition exn_text :: "exn \<Rightarrow> string" where
  "exn_text e = (case e of FileNotFoundError m \<Rightarrow> m | Exception m \<Rightarrow> m)"

text \<open>The text of a \<^verbatim>\<open>KeyError\<close>: the key between apostrophes.\<close>

definition key_error_text :: "string \<Rightarrow> string" where
  "key_error_text k = CHR 0x27 # k @ [CHR 0x27]"

text \<open>
  Lines 70 to 76. Whatever is raised between \<^verbatim>\<open>try\<close> and \<^verbatim>\<open>except\<close> stops the script with
  its text: a missing \<open>Year\<close> or \<open>Health_Impact\<close> column, the integer conversion of the
  least year of a dataset without rows (the least value of an empty series is not a
  number), or an exception of a widget.
\<close>

definition sidebar :: "frame \<Rightarrow> widgets \<Rightarrow> halt + criteria" where
  "sidebar data ui =
     (if ''Year'' \<notin> set (columns data) then
        Inl (Stopped (''Error loading filters: '' @ key_error_text ''Year''))
      else if getitem Year data = [] then
        Inl (Stopped ''Error loading filters: cannot convert float NaN to integer'')
      else
        (case slider ui (series_min (getitem Year data)) (series_max (getitem Year data))
                (2015, 2019) of
           Raises e \<Rightarrow> Inl (Stopped (''Error loading filters: '' @ exn_text e))
         | Returns yr \<Rightarrow>
             (case multiselect_entity ui (unique (getitem Entity data)) of
                Raises e \<Rightarrow> Inl (Stopped (''Error loading filters: '' @ exn_text e))
              | Returns ef \<Rightarrow>
                  (if ''Health_Impact'' \<notin> set (columns data) then
                     Inl (Stopped (''Error loading filters: '' @ key_error_text ''Health_Impact''))
                   else
                     (case multiselect_health ui (unique (getitem Health_Impact data)) of
                        Raises e \<Rightarrow> Inl (Stopped (''Error loading filters: '' @ exn_text e))
                      | Returns hf \<Rightarrow>
                          Inr \<lparr>year_range = yr, entity_filter = ef,
                               health_impact_filter = hf\<rparr>)))))"

definition filtered_data :: "frame \<Rightarrow> criteria \<Rightarrow> frame" where
  "filtered_data data c =
     getitem_mask data
       (series_and
          (series_and
             (series_and (series_ge (getitem Year data) (fst (year_range c)))
                         (series_le (getitem Year data) (snd (year_range c))))
             (isin (getitem Entity data) (entity_filter c)))
          (isin (getitem Health_Impact data) (health_impact_filter c)))"

section \<open>The map (lines 85 to 99)\<close>

record view_state =
  vs_latitude :: "real option"
  vs_longitude :: "real option"
  zoom :: nat

record layer =
  layer_type :: string
  layer_data :: frame
  get_position :: string
  get_color :: string
  get_radius :: nat
  pickable :: bool

record deck =
  layers :: "layer list"
  initial_view_state :: view_state
  map_style :: string

text \<open>
  What the map section shows: the chart of \<^verbatim>\<open>st.pydeck_chart(map_fig)\<close>, or the message of
  \<^verbatim>\<open>st.error(msg)\<close>, a message box after which the script goes on.
\<close>

datatype element = St_pydeck_chart deck | St_error string

text \<open>The lambda of line 87; a null label is not equal to \<^verbatim>\<open>'High'\<close>.\<close>

definition severity_color :: "string option \<Rightarrow> nat list" where
  "severity_color x = (if x = Some ''High'' then [255, 0, 0, 160] else [0, 255, 0, 160])"

definition map_section :: "float64 \<Rightarrow> frame \<Rightarrow> frame \<times> element" where
  "map_section np fd =
     (if \<not> empty fd then
        let vs = \<lparr>vs_latitude = mean np (getitem latitude fd),
                  vs_longitude = mean np (getitem longitude fd), zoom = 3\<rparr>;
            fd' = setitem ''color'' (\<lambda>v r. r\<lparr>color := Some v\<rparr>) fd
                    (map severity_color (getitem Health_Impact fd));
            map_layer = \<lparr>layer_type = ''ScatterplotLayer'', layer_data = fd',
                         get_position = ''[longitude, latitude]'', get_color = ''color'',
                         get_radius = 50000, pickable = True\<rparr>;
            map_fig = \<lparr>layers = [map_layer], initial_view_state = vs,
                       map_style = ''mapbox://styles/mapbox/light-v9''\<rparr>
        in (fd', St_pydeck_chart map_fig)
      else (fd, St_error ''No data available for the selected year range and filters.''))"

text \<open>The rows that a displayed element hands to its map layers.\<close>

definition map_rows :: "element \<Rightarrow> row list" where
  "map_rows e =
     (case e of
        St_pydeck_chart d \<Rightarrow> concat (map (\<lambda>l. rows (layer_data l)) (layers d))
      | St_error msg \<Rightarrow> [])"

text \<open>
  Modelled from the spec: the renderer behind \<^verbatim>\<open>st.pydeck_chart\<close> is a library outside the
  source. The specification has it draw one marker per row and leave out of the map a
  row whose coordinates are null: the markers are the rows handed to the layer that
  have a position.
\<close>

definition markers :: "element \<Rightarrow> row list" where
  "markers e = filter (\<lambda>r. latitude r \<noteq> None \<and> longitude r \<noteq> None) (map_rows e)"

section \<open>The charts (lines 105 to 132)\<close>

definition health_data :: "frame \<Rightarrow> (int \<times> 64 word) list" where
  "health_data fd = groupby_agg Year (\<lambda>g. sum_list (map Premature_Death_Count g)) fd"

definition env_data :: "float64 \<Rightarrow> frame \<Rightarrow> (int \<times> real) list" where
  "env_data np fd = groupby_agg Year (\<lambda>g. float_sum np (map Total_discharges g)) fd"

definition pie_data :: "frame \<Rightarrow> (string \<rightharpoonup> nat)" where
  "pie_data fd = value_counts (getitem Health_Impact fd)"

section \<open>The whole page\<close>

record page =
  map_element :: element
  health_chart :: "(int \<times> 64 word) list"
  env_chart :: "(int \<times> real) list"
  pie_chart :: "string \<rightharpoonup> nat"

definition discharges_label :: string where
  "discharges_label = ''Total discharges to Inland waters(million m3)''"

text \<open>
  Lines 79 to 132, for a dataset that has passed the geocoder and the sidebar, so that
  it has the columns read by lines 79 to 87. The charts are drawn from the variable
  \<^verbatim>\<open>filtered_data\<close> as the map section has left it. Lines 110 and 117 select a column
  that no line has checked: where the label is missing the selection raises a
  \<^verbatim>\<open>KeyError\<close>, which nothing catches.
\<close>

definition dashboard :: "float64 \<Rightarrow> frame \<Rightarrow> criteria \<Rightarrow> halt + page" where
  "dashboard np data c =
     (let (fd, m) = map_section np (filtered_data data c)
      in if ''Premature_Death_Count'' \<notin> set (columns fd) then
           Inl (Uncaught (Exception
                  (key_error_text ''Column not found: Premature_Death_Count'')))
         else if discharges_label \<notin> set (columns fd) then
           Inl (Uncaught (Exception
                  (key_error_text (''Column not found: '' @ discharges_label))))
         else Inr \<lparr>map_element = m, health_chart = health_data fd,
                   env_chart = env_data np fd, pie_chart = pie_data fd\<rparr>)"

text \<open>
  One run of the script, from the outcome of \<^verbatim>\<open>pd.read_csv\<close>, the float arithmetic and the
  widgets to a halt or the page. Every change of a widget, and the refresh button of
  line 195, runs the script again from its first line.
\<close>

definition script :: "float64 \<Rightarrow> frame outcome \<Rightarrow> widgets \<Rightarrow> halt + page" where
  "script np read_csv ui =
     (case data_loaded read_csv of
        Inl h \<Rightarrow> Inl h
      | Inr data0 \<Rightarrow>
          (case data_geocoded data0 of
             Inl h \<Rightarrow> Inl h
           | Inr data \<Rightarrow>
               (case sidebar data ui of
                  Inl h \<Rightarrow> Inl h
                | Inr c \<Rightarrow> dashboard np data c)))"

text \<open>
  The row predicate of the filter as the specification words it: the year within the
  inclusive range, the entity selected, the category selected.
\<close>

definition matches :: "criteria \<Rightarrow> row \<Rightarrow> bool" where
  "matches c r =
     (fst (year_range c) \<le> Year r \<and> Year r \<le> snd (year_range c) \<and>
      Entity r \<in> set (entity_filter c) \<and> Health_Impact r \<in> set (health_impact_filter c))"

section \<open>Example data\<close>

definition mk_row :: "string \<Rightarrow> int \<Rightarrow> string option \<Rightarrow> 64 word \<Rightarrow> real \<Rightarrow> row" where
  "mk_row e y h d v =
     \<lparr>Entity = e, Year = y, Health_Impact = h, Premature_Death_Count = d,
      Total_discharges = v, latitude = None, longitude = None, color = None\<rparr>"

definition csv_columns :: "string list" where
  "csv_columns = [''Entity'', ''Year'', ''Health_Impact'', ''Premature_Death_Count'',
                  ''Total discharges to Inland waters(million m3)'']"



text \<open>
  An instance of the float arithmetic for the examples: the exact sum and mean, which
  are what the floats come to up to rounding.
\<close>

definition exact_floats :: float64 where
  "exact_floats = \<lparr>float_sum = sum_list, float_mean = (\<lambda>xs. sum_list xs / real (length xs))\<rparr>"

text \<open>
  Widgets that the user leaves as they are: the slider returns its default range, or
  raises when that range does not lie between the least and the greatest year; each
  multiselect returns all its options.
\<close>

definition default_widgets :: widgets where
  "default_widgets =
     \<lparr>slider = (\<lambda>lo hi v. if lo \<le> fst v \<and> snd v \<le> hi then Returns v
                          else Raises (Exception ''StreamlitAPIException'')),
      multiselect_entity = Returns, multiselect_health = Returns\<rparr>"

text \<open>The same widgets after the user has removed every entity from the selection.\<close>

definition no_entity_widgets :: widgets where
  "no_entity_widgets = default_widgets\<lparr>multiselect_entity := (\<lambda>options. Returns [])\<rparr>"

text \<open>A file with a row for Atlantis, which the coordinate table does not have.\<close>

definition atlantis_csv :: frame where
  "atlantis_csv = \<lparr>columns = csv_columns,
     rows = [mk_row ''Atlantis'' 2015 (Some ''High'') 3 1,
             mk_row ''Belgium'' 2019 (Some ''Low'') 7 2]\<rparr>"

text \<open>The frame that lines 37 and 38 make of it, and the selection of the default widgets.\<close>

definition atlantis_data :: frame where
  "atlantis_data = \<lparr>columns = csv_columns @ [''latitude'', ''longitude''],
     rows = [(mk_row ''Atlantis'' 2015 (Some ''High'') 3 1)\<lparr>latitude := None, longitude := None\<rparr>,
             (mk_row ''Belgium'' 2019 (Some ''Low'') 7 2)\<lparr>latitude := Some 50.5039,
                                                          longitude := Some 4.4699\<rparr>]\<rparr>"

definition atlantis_criteria :: criteria where
  "atlantis_criteria = \<lparr>year_range = (2015, 2019),
     entity_filter = [''Atlantis'', ''Belgium''],
     health_impact_filter = [Some ''High'', Some ''Low'']\<rparr>"

text \<open>The same file with the health impact of the Atlantis row left blank.\<close>

definition atlantis_blank_data :: frame where
  "atlantis_blank_data = \<lparr>columns = csv_columns @ [''latitude'', ''longitude''],
     rows = [(mk_row ''Atlantis'' 2015 None 3 1)\<lparr>latitude := None, longitude := None\<rparr>,
             (mk_row ''Belgium'' 2019 (Some ''Low'') 7 2)\<lparr>latitude := Some 50.5039,
                                                          longitude := Some 4.4699\<rparr>]\<rparr>"

definition atlantis_blank_criteria :: criteria where
  "atlantis_blank_criteria = \<lparr>year_range = (2015, 2019),
     entity_filter = [''Atlantis'', ''Belgium''],
     health_impact_filter = [None, Some ''Low'']\<rparr>"

text \<open>A file whose first row has a blank health impact, geocoded.\<close>

definition blank_label_data :: frame where
  "blank_label_data = \<lparr>columns = csv_columns @ [''latitude'', ''longitude''],
     rows = [(mk_row ''Belgium'' 2015 None 4 1)\<lparr>latitude := Some 50.5039,
                                                longitude := Some 4.4699\<rparr>,
             (mk_row ''Belgium'' 2019 (Some ''Low'') 7 2)\<lparr>latitude := Some 50.5039,
                                                          longitude := Some 4.4699\<rparr>]\<rparr>"

definition blank_label_criteria :: criteria where
  "blank_label_criteria = \<lparr>year_range = (2015, 2019),
     entity_filter = [''Belgium''], health_impact_filter = [None, Some ''Low'']\<rparr>"


text \<open>A file with the five columns and no row; a file without the \<open>Entity\<close> column.\<close>

definition header_only_csv :: frame where
  "header_only_csv = \<lparr>columns = csv_columns, rows = []\<rparr>"

definition no_entity_csv :: frame where
  "no_entity_csv = \<lparr>columns = [''Country'', ''Year'', ''Health_Impact''],
     rows = [mk_row ''Belgium'' 2015 (Some ''Low'') 7 2]\<rparr>"

definition early_years_criteria :: criteria where
  "early_years_criteria = \<lparr>year_range = (1990, 1995),
     entity_filter = [''Atlantis'', ''Belgium''],
     health_impact_filter = [Some ''High'', Some ''Low'']\<rparr>"

section \<open>Properties of the frame operations\<close>

lemma rows_getitem_mask_map:
  "rows (getitem_mask df (map P (rows df))) = filter P (rows df)"
proof -
  have "map fst (filter snd (zip xs (map P xs))) = filter P xs" for xs :: "row list"
    by (induction xs) simp_all
  then show ?thesis by (simp add: getitem_mask_def)
qed

lemma series_and_map: "series_and (map P xs) (map Q xs) = map (\<lambda>x. P x \<and> Q x) xs"
  by (induction xs) (simp_all add: series_and_def)

lemma filter_mask:
  "series_and
     (series_and
        (series_and (series_ge (getitem Year data) lo) (series_le (getitem Year data) hi))
        (isin (getitem Entity data) es))
     (isin (getitem Health_Impact data) hs)
   = map (\<lambda>r. (lo \<le> Year r \<and> Year r \<le> hi) \<and> Entity r \<in> set es \<and> Health_Impact r \<in> set hs)
       (rows data)"
  by (simp add: series_ge_def series_le_def isin_def getitem_def series_and_map)

lemma rows_filtered_data: "rows (filtered_data data c) = filter (matches c) (rows data)"
proof -
  have "(\<lambda>r. (fst (year_range c) \<le> Year r \<and> Year r \<le> snd (year_range c)) \<and>
             Entity r \<in> set (entity_filter c) \<and> Health_Impact r \<in> set (health_impact_filter c))
        = matches c"
    by (auto simp: matches_def fun_eq_iff)
  then show ?thesis
    by (simp add: filtered_data_def filter_mask rows_getitem_mask_map)
qed

lemma columns_filtered_data: "columns (filtered_data data c) = columns data"
  by (simp add: filtered_data_def getitem_mask_def)

lemma map2_map_same: "map2 f (map g xs) xs = map (\<lambda>x. f (g x) x) xs"
  by (induction xs) simp_all

lemma set_add_label: "set (add_label c cs) = insert c (set cs)"
  by (auto simp: add_label_def)

lemma coords_get_fst: "fst (coords_get x) = map_option fst (country_coords x)"
  by (simp add: coords_get_def split: option.splits prod.splits)

lemma coords_get_snd: "snd (coords_get x) = map_option snd (country_coords x)"
  by (simp add: coords_get_def split: option.splits prod.splits)

lemma data_geocoded_eq:
  "data_geocoded data =
     (if ''Entity'' \<in> set (columns data)
      then Inr \<lparr>columns = add_label ''longitude'' (add_label ''latitude'' (columns data)),
               rows = map (\<lambda>r. r\<lparr>latitude := map_option fst (country_coords (Entity r)),
                                  longitude := map_option snd (country_coords (Entity r))\<rparr>)
                        (rows data)\<rparr>
      else Inl (Stopped ''The expected 'Entity' column is not in the dataset.''))"
  by (simp add: data_geocoded_def Let_def setitem_def getitem_def map2_map_same comp_def
      coords_get_fst coords_get_snd)

lemma map_section_eq:
  "map_section np fd =
     (if empty fd then (fd, St_error ''No data available for the selected year range and filters.'')
      else (\<lparr>columns = add_label ''color'' (columns fd),
              rows = map (\<lambda>r. r\<lparr>color := Some (severity_color (Health_Impact r))\<rparr>) (rows fd)\<rparr>,
            St_pydeck_chart
              \<lparr>layers = [\<lparr>layer_type = ''ScatterplotLayer'',
                    layer_data = \<lparr>columns = add_label ''color'' (columns fd),
                      rows = map (\<lambda>r. r\<lparr>color := Some (severity_color (Health_Impact r))\<rparr>)
                               (rows fd)\<rparr>,
                    get_position = ''[longitude, latitude]'', get_color = ''color'',
                    get_radius = 50000, pickable = True\<rparr>],
               initial_view_state = \<lparr>vs_latitude = mean np (map latitude (rows fd)),
                  vs_longitude = mean np (map longitude (rows fd)), zoom = 3\<rparr>,
               map_style = ''mapbox://styles/mapbox/light-v9''\<rparr>))"
  by (simp add: map_section_def Let_def setitem_def getitem_def map2_map_same comp_def)

lemma map_rows_map_section:
  "map_rows (snd (map_section np fd)) =
     (if empty fd then []
      else map (\<lambda>r. r\<lparr>color := Some (severity_color (Health_Impact r))\<rparr>) (rows fd))"
  by (simp add: map_section_eq map_rows_def)

lemma rows_map_section:
  "rows (fst (map_section np fd)) =
     (if empty fd then rows fd
      else map (\<lambda>r. r\<lparr>color := Some (severity_color (Health_Impact r))\<rparr>) (rows fd))"
  by (simp add: map_section_eq)

lemma columns_map_section:
  "set (columns (fst (map_section np fd))) =
     (if empty fd then set (columns fd) else insert ''color'' (set (columns fd)))"
  by (simp add: map_section_eq set_add_label)

subsection \<open>Nulls and the mean\<close>

lemma dropna_filter: "dropna s = map the (filter (\<lambda>v. v \<noteq> None) s)"
  by (induction s) (auto simp: dropna_def)

lemma set_dropna: "set (dropna s) = {v. Some v \<in> set s}"
  by (induction s) (auto simp: dropna_def split: option.splits)

lemma count_list_dropna: "count_list (dropna s) v = count_list s (Some v)"
  by (induction s) (auto simp: dropna_def split: option.splits)

lemma mean_skips_nulls: "mean np s = mean np (filter (\<lambda>v. v \<noteq> None) s)"
  by (simp add: mean_def dropna_filter)

lemma mean_values:
  "mean np s = (if \<forall>v\<in>set s. v = None then None else Some (float_mean np (dropna s)))"
  by (auto simp: mean_def Let_def dropna_filter filter_empty_conv)

subsection \<open>Grouped sums\<close>









lemma groupby_agg_lookup:
  "map_of (groupby_agg k agg df) y =
     (if y \<in> k ` set (rows df) then Some (agg (filter (\<lambda>r. k r = y) (rows df))) else None)"
proof -
  have "map_of (map (\<lambda>y. (y, g y)) ks) y = (if y \<in> set ks then Some (g y) else None)"
    for g :: "int \<Rightarrow> 'a" and ks
    by (induction ks) auto
  then show ?thesis
    by (simp add: groupby_agg_def getitem_def)
qed

lemma groupby_agg_color:
  assumes "\<And>g. agg (map u g) = agg g" "\<And>r. k (u r) = k r" "rows df' = map u (rows df)"
  shows "groupby_agg k agg df' = groupby_agg k agg df"
proof -
  have "filter (\<lambda>r. k r = y) (map u xs) = map u (filter (\<lambda>r. k r = y) xs)" for y xs
    by (simp add: filter_map comp_def assms(2))
  then show ?thesis
    by (simp add: groupby_agg_def getitem_def comp_def assms)
qed

subsection \<open>Value counts\<close>

lemma count_list_map_filter: "count_list (map h xs) c = length (filter (\<lambda>r. h r = c) xs)"
  by (induction xs) simp_all

lemma dom_value_counts: "dom (value_counts s) = {v. Some v \<in> set s}"
  by (auto simp: value_counts_def dom_def)

lemma value_counts_total:
  "(\<Sum>v\<in>dom (value_counts s). the (value_counts s v)) = length (filter (\<lambda>v. v \<noteq> None) s)"
proof -
  have "(\<Sum>v\<in>dom (value_counts s). the (value_counts s v))
      = (\<Sum>v\<in>set (dropna s). count_list (dropna s) v)"
    unfolding dom_value_counts set_dropna
    by (rule sum.cong) (simp_all add: value_counts_def count_list_dropna)
  also have "\<dots> = length (dropna s)"
    by (rule sum_count_set) simp_all
  also have "\<dots> = length (filter (\<lambda>v. v \<noteq> None) s)"
    by (simp add: dropna_filter)
  finally show ?thesis .
qed

subsection \<open>Sums of 64-bit integers\<close>


subsection \<open>The page\<close>

lemma matches_coords [simp]:
  "matches c (r\<lparr>latitude := a, longitude := b\<rparr>) = matches c r"
  by (simp add: matches_def)

lemma charts_map_section:
  "health_data (fst (map_section np fd)) = health_data fd"
  "env_data np' (fst (map_section np fd)) = env_data np' fd"
  "pie_data (fst (map_section np fd)) = pie_data fd"
proof -
  let ?u = "\<lambda>r. r\<lparr>color := Some (severity_color (Health_Impact r))\<rparr>"
  have rows: "rows (fst (map_section np fd)) = map ?u (rows fd)" if "\<not> empty fd"
    using that by (simp add: rows_map_section)
  show "health_data (fst (map_section np fd)) = health_data fd"
  proof (cases "empty fd")
    case True
    then show ?thesis by (simp add: map_section_eq)
  next
    case False
    show ?thesis
      unfolding health_data_def
      by (rule groupby_agg_color [where u = ?u]) (simp_all add: rows [OF False] comp_def)
  qed
  show "env_data np' (fst (map_section np fd)) = env_data np' fd"
  proof (cases "empty fd")
    case True
    then show ?thesis by (simp add: map_section_eq)
  next
    case False
    show ?thesis
      unfolding env_data_def
      by (rule groupby_agg_color [where u = ?u]) (simp_all add: rows [OF False] comp_def)
  qed
  show "pie_data (fst (map_section np fd)) = pie_data fd"
    by (simp add: pie_data_def getitem_def rows_map_section comp_def)
qed

lemma label_map_section:
  "l \<noteq> ''color'' \<Longrightarrow>
   l \<in> set (columns (fst (map_section np fd))) = (l \<in> set (columns fd))"
  by (simp add: columns_map_section)

lemma dashboard_eq:
  "dashboard np data c =
     (if ''Premature_Death_Count'' \<notin> set (columns data) then
        Inl (Uncaught (Exception (key_error_text ''Column not found: Premature_Death_Count'')))
      else if discharges_label \<notin> set (columns data) then
        Inl (Uncaught (Exception (key_error_text (''Column not found: '' @ discharges_label))))
      else Inr \<lparr>map_element = snd (map_section np (filtered_data data c)),
                health_chart = health_data (filtered_data data c),
                env_chart = env_data np (filtered_data data c),
                pie_chart = pie_data (filtered_data data c)\<rparr>)"
proof -
  have a: "''Premature_Death_Count'' \<in> set (columns (fst (map_section np (filtered_data data c))))
      = (''Premature_Death_Count'' \<in> set (columns data))"
    by (simp add: label_map_section columns_filtered_data)
  have b: "discharges_label \<in> set (columns (fst (map_section np (filtered_data data c))))
      = (discharges_label \<in> set (columns data))"
    by (simp add: label_map_section columns_filtered_data discharges_label_def)
  show ?thesis
    by (simp add: dashboard_def split_beta a b charts_map_section)
qed

lemma script_eq:
  "data_geocoded df = Inr data \<Longrightarrow> sidebar data ui = Inr c \<Longrightarrow>
   script np (Returns df) ui = dashboard np data c"
  by (simp add: script_def data_loaded_def)

lemma geocoded_frame:
  assumes "data_geocoded df = Inr data"
  shows "''Entity'' \<in> set (columns df)"
    and "set (columns data) = insert ''longitude'' (insert ''latitude'' (set (columns df)))"
    and "rows data = map (\<lambda>r. r\<lparr>latitude := map_option fst (country_coords (Entity r)),
                                 longitude := map_option snd (country_coords (Entity r))\<rparr>)
                       (rows df)"
  using assms by (auto simp: data_geocoded_eq set_add_label split: if_splits)

lemma sidebar_no_rows:
  "''Year'' \<in> set (columns data) \<Longrightarrow> rows data = [] \<Longrightarrow>
   sidebar data ui = Inl (Stopped ''Error loading filters: cannot convert float NaN to integer'')"
  by (simp add: sidebar_def getitem_def)

lemma no_match_cases:
  assumes "entity_filter c = [] \<or> health_impact_filter c = [] \<or>
           (\<forall>r\<in>set (rows data). Year r < fst (year_range c) \<or> snd (year_range c) < Year r) \<or>
           (\<forall>r\<in>set (rows data). \<not> matches c r)"
  shows "filter (matches c) (rows data) = []"
  using assms by (auto simp: filter_empty_conv matches_def)

lemma no_rows_page:
  assumes "rows fd = []"
  shows "snd (map_section np fd) = St_error ''No data available for the selected year range and filters.''"
    and "health_data fd = []" and "env_data np fd = []" and "pie_data fd = Map.empty"
  using assms
  by (simp_all add: map_section_eq empty_def health_data_def env_data_def pie_data_def
      groupby_agg_def value_counts_def getitem_def)

lemma sum_list_filter_remove1:
  fixes f :: "'r \<Rightarrow> 'a::comm_monoid_add"
  shows "r \<in> set xs \<Longrightarrow> P r \<Longrightarrow>
    sum_list (map f (filter P xs)) = f r + sum_list (map f (filter P (remove1 r xs)))"
  by (induction xs) (auto simp: add.left_commute)

lemma length_filter_remove1:
  "r \<in> set xs \<Longrightarrow> P r \<Longrightarrow> length (filter P xs) = Suc (length (filter P (remove1 r xs)))"
  by (induction xs) auto

lemma filter_remove1_other: "\<not> P r \<Longrightarrow> filter P (remove1 r xs) = filter P xs"
  by (induction xs) auto

subsection \<open>The example data\<close>

lemmas ex_defs = mk_row_def csv_columns_def add_label_def country_coords_def

lemma atlantis_geocoded: "data_geocoded atlantis_csv = Inr atlantis_data"
  by (simp add: data_geocoded_eq atlantis_csv_def atlantis_data_def ex_defs)

lemma atlantis_sidebar: "sidebar atlantis_data default_widgets = Inr atlantis_criteria"
  by (simp add: sidebar_def atlantis_data_def atlantis_criteria_def default_widgets_def
      getitem_def series_min_def series_max_def unique_def mk_row_def csv_columns_def)

lemma atlantis_view:
  "rows (filtered_data atlantis_data atlantis_criteria) = rows atlantis_data"
  by (simp add: rows_filtered_data matches_def atlantis_data_def atlantis_criteria_def mk_row_def)

lemma atlantis_view_not_empty: "\<not> empty (filtered_data atlantis_data atlantis_criteria)"
  by (simp add: empty_def atlantis_view columns_filtered_data)
     (simp add: atlantis_data_def)


section \<open>The loader\<close>

text \<open>
  Claim C4, as the script has it. The loader gives back the frame that the CSV reader
  returned, whole. When the reader raises \<open>FileNotFoundError\<close> the script shows its
  message and stops. Any other exception of the reader, a parse failure among them, has
  no handler: it leaves the script uncaught. In both failure cases no frame comes back
  and nothing after the loader runs.
\<close>

theorem data_loaded_cases:
  "data_loaded (Returns df) = Inr df \<and>
   data_loaded (Raises (FileNotFoundError m)) =
     Inl (Stopped ''Failed to load data from data/integrated_water_related_data (1) (1).csv. Please check the file path and ensure the file exists.'') \<and>
   data_loaded (Raises (Exception m)) = Inl (Uncaught (Exception m)) \<and>
   script np (Raises (FileNotFoundError m)) ui =
     Inl (Stopped ''Failed to load data from data/integrated_water_related_data (1) (1).csv. Please check the file path and ensure the file exists.'') \<and>
   script np (Raises (Exception m)) ui = Inl (Uncaught (Exception m))"
  by (simp add: data_loaded_def script_def data_path_def)

text \<open>
  A file that exists and cannot be parsed: the reader raises a parser error, and the
  script neither shows a message of its own nor stops by itself.
\<close>

theorem parse_failure_uncaught:
  "data_loaded (Raises (Exception ''ParserError: Error tokenizing data'')) =
     Inl (Uncaught (Exception ''ParserError: Error tokenizing data'')) \<and>
   script exact_floats (Raises (Exception ''ParserError: Error tokenizing data'')) default_widgets =
     Inl (Uncaught (Exception ''ParserError: Error tokenizing data''))"
  by (simp add: data_loaded_def script_def)

section \<open>The geocoder\<close>

text \<open>
  Claim C5. For a dataset with an \<open>Entity\<close> column, geocoding gives every row the
  latitude and longitude that the coordinate table has for its entity, and null for an
  entity the table does not have; so a coordinate of a geocoded row is non-null exactly
  when the entity of the row is in the table. For a dataset without the column the
  script shows the schema message and stops.
\<close>

theorem data_geocoded_lookup:
  "(''Entity'' \<in> set (columns data) \<longrightarrow>
      data_geocoded data =
        Inr \<lparr>columns = add_label ''longitude'' (add_label ''latitude'' (columns data)),
             rows = map (\<lambda>r. r\<lparr>latitude := map_option fst (country_coords (Entity r)),
                                longitude := map_option snd (country_coords (Entity r))\<rparr>)
                      (rows data)\<rparr>) \<and>
   (''Entity'' \<notin> set (columns data) \<longrightarrow>
      data_geocoded data = Inl (Stopped ''The expected 'Entity' column is not in the dataset.'') \<and>
      script np (Returns data) ui =
        Inl (Stopped ''The expected 'Entity' column is not in the dataset.'')) \<and>
   (\<forall>data' r. data_geocoded data = Inr data' \<longrightarrow> r \<in> set (rows data') \<longrightarrow>
      (latitude r \<noteq> None) = (Entity r \<in> dom country_coords) \<and>
      (longitude r \<noteq> None) = (Entity r \<in> dom country_coords))"
proof (intro conjI impI allI)
  fix data' r
  assume "data_geocoded data = Inr data'" and "r \<in> set (rows data')"
  then obtain r0 where "r = r0\<lparr>latitude := map_option fst (country_coords (Entity r0)),
                                longitude := map_option snd (country_coords (Entity r0))\<rparr>"
    by (auto simp: data_geocoded_eq split: if_splits)
  then show "(latitude r \<noteq> None) = (Entity r \<in> dom country_coords)"
    and "(longitude r \<noteq> None) = (Entity r \<in> dom country_coords)"
    by auto
qed (simp_all add: data_geocoded_eq script_def data_loaded_def)

theorem data_geocoded_lookup_witness:
  "''Entity'' \<in> set (columns atlantis_csv) \<and>
   data_geocoded atlantis_csv = Inr atlantis_data \<and>
   map latitude (rows atlantis_data) = [None, Some 50.5039] \<and>
   map longitude (rows atlantis_data) = [None, Some 4.4699] \<and>
   ''Entity'' \<notin> set (columns no_entity_csv) \<and>
   data_geocoded no_entity_csv = Inl (Stopped ''The expected 'Entity' column is not in the dataset.'')"
proof -
  have a: "''Entity'' \<in> set (columns atlantis_csv)"
    by (simp add: atlantis_csv_def csv_columns_def)
  have b: "''Entity'' \<notin> set (columns no_entity_csv)"
    by (simp add: no_entity_csv_def)
  from a data_geocoded_lookup [of atlantis_csv]
  have "data_geocoded atlantis_csv =
        Inr \<lparr>columns = add_label ''longitude'' (add_label ''latitude'' (columns atlantis_csv)),
             rows = map (\<lambda>r. r\<lparr>latitude := map_option fst (country_coords (Entity r)),
                                longitude := map_option snd (country_coords (Entity r))\<rparr>)
                      (rows atlantis_csv)\<rparr>"
    by blast
  then have c: "data_geocoded atlantis_csv = Inr atlantis_data"
    by (simp add: atlantis_csv_def atlantis_data_def ex_defs)
  from b data_geocoded_lookup [of no_entity_csv]
  have d: "data_geocoded no_entity_csv =
      Inl (Stopped ''The expected 'Entity' column is not in the dataset.'')"
    by blast
  have e: "map latitude (rows atlantis_data) = [None, Some 50.5039]"
     "map longitude (rows atlantis_data) = [None, Some 4.4699]"
    by (simp_all add: atlantis_data_def mk_row_def)
  from a b c d e show ?thesis by blast
qed

section \<open>The filter\<close>

text \<open>
  Claim C1. For every dataset and every selection, the filtered view holds exactly the
  rows of the dataset whose year lies in the inclusive range, whose entity is among the
  selected entities and whose health impact is among the selected categories, in the
  order of the dataset; no other row appears.
\<close>

theorem filtered_data_exact:
  "rows (filtered_data data c) =
     filter (\<lambda>r. fst (year_range c) \<le> Year r \<and> Year r \<le> snd (year_range c) \<and>
                 Entity r \<in> set (entity_filter c) \<and>
                 Health_Impact r \<in> set (health_impact_filter c)) (rows data)
   \<and> set (rows (filtered_data data c)) =
     {r \<in> set (rows data). fst (year_range c) \<le> Year r \<and> Year r \<le> snd (year_range c) \<and>
                 Entity r \<in> set (entity_filter c) \<and>
                 Health_Impact r \<in> set (health_impact_filter c)}"
proof -
  have "matches c = (\<lambda>r. fst (year_range c) \<le> Year r \<and> Year r \<le> snd (year_range c) \<and>
                 Entity r \<in> set (entity_filter c) \<and>
                 Health_Impact r \<in> set (health_impact_filter c))"
    by (simp add: matches_def fun_eq_iff)
  then have "rows (filtered_data data c) =
     filter (\<lambda>r. fst (year_range c) \<le> Year r \<and> Year r \<le> snd (year_range c) \<and>
                 Entity r \<in> set (entity_filter c) \<and>
                 Health_Impact r \<in> set (health_impact_filter c)) (rows data)"
    using rows_filtered_data [of data c] by simp
  then show ?thesis by auto
qed

text \<open>
  Claim C6. The filtered view is a part of the dataset: its rows are rows of the dataset,
  in the dataset's order and no more often than the dataset has them, so there are at
  most as many; its columns are the dataset's.
\<close>

theorem filtered_data_subset:
  "subseq (rows (filtered_data data c)) (rows data) \<and>
   set (rows (filtered_data data c)) \<subseteq> set (rows data) \<and>
   length (rows (filtered_data data c)) \<le> length (rows data) \<and>
   columns (filtered_data data c) = columns data"
  by (simp add: rows_filtered_data columns_filtered_data)

text \<open>
  A file with the five columns and no row. The script does not reach the filter: the
  least year of no rows is not a number, line 71 raises, and the script stops with the
  message of the filter controls, whatever the widgets would have returned.
\<close>

theorem header_only_stops:
  "script exact_floats (Returns header_only_csv) default_widgets =
     Inl (Stopped ''Error loading filters: cannot convert float NaN to integer'') \<and>
   script exact_floats (Returns header_only_csv) no_entity_widgets =
     Inl (Stopped ''Error loading filters: cannot convert float NaN to integer'')"
  by (simp add: script_def data_loaded_def data_geocoded_eq header_only_csv_def
      csv_columns_def add_label_def sidebar_def getitem_def)

text \<open>
  Claim C7, as the script has it. A dataset without rows stops at the filter controls
  with their error message. For any dataset and any selection that no row satisfies
  (no entity selected, no category selected, a year range outside the years of the
  dataset, or any other), the view has no rows and the map section shows the no-data
  message. When the dataset is the geocoded file, the selection is what the sidebar
  returned and the file has the death-count and discharge columns, the run of the
  script ends with that message and three empty charts, not with a halt.
\<close>

theorem no_data_state:
  "(rows df = [] \<and> ''Entity'' \<in> set (columns df) \<and> ''Year'' \<in> set (columns df) \<longrightarrow>
      script np (Returns df) ui =
        Inl (Stopped ''Error loading filters: cannot convert float NaN to integer'')) \<and>
   (entity_filter c = [] \<or> health_impact_filter c = [] \<or>
    (\<forall>r\<in>set (rows data). Year r < fst (year_range c) \<or> snd (year_range c) < Year r) \<or>
    (\<forall>r\<in>set (rows data). \<not> matches c r) \<longrightarrow>
      rows (filtered_data data c) = [] \<and>
      snd (map_section np (filtered_data data c)) =
        St_error ''No data available for the selected year range and filters.'' \<and>
      (data_geocoded df = Inr data \<and> sidebar data ui = Inr c \<and>
       ''Premature_Death_Count'' \<in> set (columns df) \<and> discharges_label \<in> set (columns df) \<longrightarrow>
         script np (Returns df) ui =
           Inr \<lparr>map_element = St_error ''No data available for the selected year range and filters.'',
                health_chart = [], env_chart = [], pie_chart = Map.empty\<rparr>))"
proof (intro conjI impI)
  assume a: "rows df = [] \<and> ''Entity'' \<in> set (columns df) \<and> ''Year'' \<in> set (columns df)"
  let ?g = "\<lparr>columns = add_label ''longitude'' (add_label ''latitude'' (columns df)),
             rows = map (\<lambda>r. r\<lparr>latitude := map_option fst (country_coords (Entity r)),
                                longitude := map_option snd (country_coords (Entity r))\<rparr>)
                      (rows df)\<rparr>"
  from a have g: "data_geocoded df = Inr ?g" by (simp add: data_geocoded_eq)
  from a have "''Year'' \<in> set (columns ?g)" and "rows ?g = []"
    by (simp_all add: set_add_label)
  then have "sidebar ?g ui =
      Inl (Stopped ''Error loading filters: cannot convert float NaN to integer'')"
    by (rule sidebar_no_rows)
  with g show "script np (Returns df) ui =
      Inl (Stopped ''Error loading filters: cannot convert float NaN to integer'')"
    by (simp add: script_def data_loaded_def)
next
  assume n: "entity_filter c = [] \<or> health_impact_filter c = [] \<or>
    (\<forall>r\<in>set (rows data). Year r < fst (year_range c) \<or> snd (year_range c) < Year r) \<or>
    (\<forall>r\<in>set (rows data). \<not> matches c r)"
  then have "filter (matches c) (rows data) = []" by (rule no_match_cases)
  then show view: "rows (filtered_data data c) = []" by (simp add: rows_filtered_data)
  then show "snd (map_section np (filtered_data data c)) =
        St_error ''No data available for the selected year range and filters.''"
    by (rule no_rows_page)
  assume s: "data_geocoded df = Inr data \<and> sidebar data ui = Inr c \<and>
       ''Premature_Death_Count'' \<in> set (columns df) \<and> discharges_label \<in> set (columns df)"
  then have run: "script np (Returns df) ui = dashboard np data c"
    by (simp add: script_eq)
  from s have "set (columns data) = insert ''longitude'' (insert ''latitude'' (set (columns df)))"
    by (intro geocoded_frame(2)) simp
  with s have "''Premature_Death_Count'' \<in> set (columns data)"
    and "discharges_label \<in> set (columns data)"
    by simp_all
  then show "script np (Returns df) ui =
           Inr \<lparr>map_element = St_error ''No data available for the selected year range and filters.'',
                health_chart = [], env_chart = [], pie_chart = Map.empty\<rparr>"
    unfolding run by (simp add: dashboard_eq no_rows_page [OF view])
qed

theorem no_data_state_witness:
  "rows header_only_csv = [] \<and>
   script exact_floats (Returns header_only_csv) default_widgets =
     Inl (Stopped ''Error loading filters: cannot convert float NaN to integer'') \<and>
   sidebar atlantis_data no_entity_widgets = Inr (atlantis_criteria\<lparr>entity_filter := []\<rparr>) \<and>
   rows (filtered_data atlantis_data (atlantis_criteria\<lparr>entity_filter := []\<rparr>)) = [] \<and>
   script exact_floats (Returns atlantis_csv) no_entity_widgets =
     Inr \<lparr>map_element = St_error ''No data available for the selected year range and filters.'',
          health_chart = [], env_chart = [], pie_chart = Map.empty\<rparr> \<and>
   map Year (rows atlantis_data) = [2015, 2019] \<and>
   year_range early_years_criteria = (1990, 1995) \<and>
   rows (filtered_data atlantis_data early_years_criteria) = [] \<and>
   snd (map_section exact_floats (filtered_data atlantis_data early_years_criteria)) =
     St_error ''No data available for the selected year range and filters.''"
proof -
  let ?c = "atlantis_criteria\<lparr>entity_filter := []\<rparr>"
  have h0: "rows header_only_csv = [] \<and> ''Entity'' \<in> set (columns header_only_csv) \<and>
      ''Year'' \<in> set (columns header_only_csv)"
    by (simp add: header_only_csv_def csv_columns_def)
  have h1: "entity_filter ?c = []" by simp
  have h2: "\<forall>r\<in>set (rows atlantis_data).
      Year r < fst (year_range early_years_criteria) \<or> snd (year_range early_years_criteria) < Year r"
    by (simp add: atlantis_data_def early_years_criteria_def mk_row_def)
  have s: "sidebar atlantis_data no_entity_widgets = Inr ?c"
    by (simp add: sidebar_def atlantis_data_def atlantis_criteria_def default_widgets_def
        no_entity_widgets_def getitem_def series_min_def series_max_def unique_def mk_row_def
        csv_columns_def)
  have l: "''Premature_Death_Count'' \<in> set (columns atlantis_csv)"
    "discharges_label \<in> set (columns atlantis_csv)"
    by (simp_all add: atlantis_csv_def csv_columns_def discharges_label_def)
  have y: "map Year (rows atlantis_data) = [2015, 2019]"
     "year_range early_years_criteria = (1990, 1995)"
    by (simp_all add: atlantis_data_def early_years_criteria_def mk_row_def)
  note t0 = no_data_state [of header_only_csv exact_floats default_widgets ?c atlantis_data]
  note t1 = no_data_state [of atlantis_csv exact_floats no_entity_widgets ?c atlantis_data]
  note t2 = no_data_state [of atlantis_csv exact_floats no_entity_widgets
      early_years_criteria atlantis_data]
  from t0 h0 have r0: "script exact_floats (Returns header_only_csv) default_widgets =
     Inl (Stopped ''Error loading filters: cannot convert float NaN to integer'')"
    by blast
  from t1 h1 s l atlantis_geocoded
  have r1: "rows (filtered_data atlantis_data ?c) = []"
    "script exact_floats (Returns atlantis_csv) no_entity_widgets =
     Inr \<lparr>map_element = St_error ''No data available for the selected year range and filters.'',
          health_chart = [], env_chart = [], pie_chart = Map.empty\<rparr>"
    by blast+
  from t2 h2 have r2: "rows (filtered_data atlantis_data early_years_criteria) = []"
    "snd (map_section exact_floats (filtered_data atlantis_data early_years_criteria)) =
     St_error ''No data available for the selected year range and filters.''"
    by blast+
  from h0 r0 s r1 y r2 show ?thesis by blast
qed

section \<open>The aggregations\<close>




text \<open>
  A dataset whose first row has a blank health impact. The default selection of the
  sidebar holds the null label, so the row stays in the view; the category counts leave
  it out, and add up to one for a view of two rows.
\<close>

theorem null_label_not_counted:
  "sidebar blank_label_data default_widgets = Inr blank_label_criteria \<and>
   map Health_Impact (rows (filtered_data blank_label_data blank_label_criteria)) =
     [None, Some ''Low''] \<and>
   length (rows (filtered_data blank_label_data blank_label_criteria)) = 2 \<and>
   pie_data (filtered_data blank_label_data blank_label_criteria) = [''Low'' \<mapsto> 1] \<and>
   (\<Sum>c\<in>dom (pie_data (filtered_data blank_label_data blank_label_criteria)).
      the (pie_data (filtered_data blank_label_data blank_label_criteria) c)) = 1"
proof -
  let ?v = "filtered_data blank_label_data blank_label_criteria"
  have s: "sidebar blank_label_data default_widgets = Inr blank_label_criteria"
    by (simp add: sidebar_def blank_label_data_def blank_label_criteria_def default_widgets_def
        getitem_def series_min_def series_max_def unique_def mk_row_def csv_columns_def)
  have v: "rows ?v = rows blank_label_data"
    by (simp add: rows_filtered_data matches_def blank_label_data_def blank_label_criteria_def
        mk_row_def)
  have h: "map Health_Impact (rows ?v) = [None, Some ''Low'']"
    unfolding v by (simp add: blank_label_data_def mk_row_def)
  have p: "pie_data ?v = [''Low'' \<mapsto> 1]"
    by (auto simp: pie_data_def getitem_def h value_counts_def fun_eq_iff)
  have n: "length (rows ?v) = 2"
    unfolding v by (simp add: blank_label_data_def)
  have "(\<Sum>c\<in>dom (pie_data ?v). the (pie_data ?v c)) = 1"
    unfolding p by simp
  with s h p n show ?thesis by blast
qed

text \<open>
  Claim C3, as the script has it. For every view, the category aggregation maps each
  health-impact label that occurs in the view, and no other, to the number of the
  view's rows with that label. Rows whose health impact is null are in no count: the
  counts add up to the number of rows with a label, which together with the number of
  rows without one is the number of rows of the view.
\<close>

theorem category_counts:
  "dom (pie_data fd) = {c. Some c \<in> Health_Impact ` set (rows fd)} \<and>
   pie_data fd c =
     (if Some c \<in> Health_Impact ` set (rows fd)
      then Some (length (filter (\<lambda>r. Health_Impact r = Some c) (rows fd))) else None) \<and>
   (\<Sum>c\<in>dom (pie_data fd). the (pie_data fd c)) =
     length (filter (\<lambda>r. Health_Impact r \<noteq> None) (rows fd)) \<and>
   (\<Sum>c\<in>dom (pie_data fd). the (pie_data fd c)) +
     length (filter (\<lambda>r. Health_Impact r = None) (rows fd)) = length (rows fd)"
proof -
  have d: "dom (pie_data fd) = {c. Some c \<in> Health_Impact ` set (rows fd)}"
    by (simp add: pie_data_def dom_value_counts getitem_def)
  have l: "pie_data fd c =
     (if Some c \<in> Health_Impact ` set (rows fd)
      then Some (length (filter (\<lambda>r. Health_Impact r = Some c) (rows fd))) else None)"
    by (simp add: pie_data_def value_counts_def getitem_def count_list_map_filter)
  have "(\<Sum>c\<in>dom (pie_data fd). the (pie_data fd c)) =
     length (filter (\<lambda>v. v \<noteq> None) (map Health_Impact (rows fd)))"
    unfolding pie_data_def getitem_def by (rule value_counts_total)
  then have t: "(\<Sum>c\<in>dom (pie_data fd). the (pie_data fd c)) =
     length (filter (\<lambda>r. Health_Impact r \<noteq> None) (rows fd))"
    by (simp add: filter_map comp_def)
  have "length (filter (\<lambda>r. Health_Impact r \<noteq> None) (rows fd)) +
     length (filter (\<lambda>r. Health_Impact r = None) (rows fd)) = length (rows fd)"
    using sum_length_filter_compl [of "\<lambda>r. Health_Impact r \<noteq> None" "rows fd"] by simp
  with d l t show ?thesis by simp
qed

section \<open>The map\<close>

text \<open>
  Claim C9. Every row handed to the map layer carries a colour that depends on its
  health impact alone, in two cases: red for \<open>High\<close>, green for every other value, a
  null among them. When the view is not empty these rows are the rows of the view, one
  for one.
\<close>

theorem map_color_two_cases:
  "(\<forall>r\<in>set (map_rows (snd (map_section np fd))).
      color r = Some (if Health_Impact r = Some ''High'' then [255, 0, 0, 160]
                      else [0, 255, 0, 160])) \<and>
   (\<not> empty fd \<longrightarrow>
      map Health_Impact (map_rows (snd (map_section np fd))) = map Health_Impact (rows fd))"
  by (auto simp: map_rows_map_section severity_color_def comp_def)

theorem map_color_two_cases_witness:
  "\<not> empty (filtered_data atlantis_data atlantis_criteria) \<and>
   map Health_Impact
     (map_rows (snd (map_section exact_floats (filtered_data atlantis_data atlantis_criteria))))
     = [Some ''High'', Some ''Low''] \<and>
   map color
     (map_rows (snd (map_section exact_floats (filtered_data atlantis_data atlantis_criteria))))
     = [Some [255, 0, 0, 160], Some [0, 255, 0, 160]]"
proof -
  let ?m = "map_rows (snd (map_section exact_floats (filtered_data atlantis_data atlantis_criteria)))"
  note t = map_color_two_cases [of exact_floats "filtered_data atlantis_data atlantis_criteria"]
  have ne: "\<not> empty (filtered_data atlantis_data atlantis_criteria)"
    by (rule atlantis_view_not_empty)
  with t have "map Health_Impact ?m =
      map Health_Impact (rows (filtered_data atlantis_data atlantis_criteria))"
    by blast
  then have h: "map Health_Impact ?m = [Some ''High'', Some ''Low'']"
    by (simp add: atlantis_view) (simp add: atlantis_data_def mk_row_def)
  from t have "\<forall>r\<in>set ?m.
      color r = Some (if Health_Impact r = Some ''High'' then [255, 0, 0, 160]
                      else [0, 255, 0, 160])"
    by blast
  then have "map color ?m =
      map (\<lambda>r. Some (if Health_Impact r = Some ''High'' then [255, 0, 0, 160]
                      else [0, 255, 0, 160])) ?m"
    by (intro map_cong) auto
  also have "\<dots> = map (\<lambda>h. Some (if h = Some ''High'' then [255, 0, 0, 160] else [0, 255, 0, 160]))
      (map Health_Impact ?m)"
    by (simp add: comp_def)
  also have "\<dots> = [Some [255, 0, 0, 160], Some [0, 255, 0, 160]]"
    unfolding h by simp
  finally show ?thesis using ne h by blast
qed

text \<open>
  Drawing the map of a view with two rows: before line 87 the view has seven columns and
  no colours, after it the same variable has eight columns and a colour in every row.
\<close>

theorem rendering_adds_color_column:
  "columns (filtered_data atlantis_data atlantis_criteria) =
     [''Entity'', ''Year'', ''Health_Impact'', ''Premature_Death_Count'',
      ''Total discharges to Inland waters(million m3)'', ''latitude'', ''longitude''] \<and>
   columns (fst (map_section exact_floats (filtered_data atlantis_data atlantis_criteria))) =
     [''Entity'', ''Year'', ''Health_Impact'', ''Premature_Death_Count'',
      ''Total discharges to Inland waters(million m3)'', ''latitude'', ''longitude'', ''color''] \<and>
   map color (rows (filtered_data atlantis_data atlantis_criteria)) = [None, None] \<and>
   map color (rows (fst (map_section exact_floats (filtered_data atlantis_data atlantis_criteria)))) =
     [Some [255, 0, 0, 160], Some [0, 255, 0, 160]]"
  by (simp add: rows_map_section atlantis_view_not_empty atlantis_view columns_filtered_data
      map_section_eq comp_def)
     (simp add: atlantis_data_def mk_row_def csv_columns_def add_label_def severity_color_def)

text \<open>
  Claim C10, as the script has it. The view is computed from the dataset and the
  selection alone: the dataset with its rows cut down to the matching ones. Drawing the
  map changes a non-empty view in place: it writes the column \<open>color\<close> (appended, or
  overwritten where the label exists), each row's colour taken from its health impact;
  the number and order of the rows and every other field stay as they were. An empty
  view is left as it is. The three charts, drawn from the view after the map, are those
  of the view before it.
\<close>

theorem map_section_frame:
  "filtered_data data c = data\<lparr>rows := filter (matches c) (rows data)\<rparr> \<and>
   fst (map_section np fd) =
     (if empty fd then fd
      else \<lparr>columns = add_label ''color'' (columns fd),
            rows = map (\<lambda>r. r\<lparr>color := Some (severity_color (Health_Impact r))\<rparr>) (rows fd)\<rparr>) \<and>
   length (rows (fst (map_section np fd))) = length (rows fd) \<and>
   map (\<lambda>r. r\<lparr>color := None\<rparr>) (rows (fst (map_section np fd))) =
     map (\<lambda>r. r\<lparr>color := None\<rparr>) (rows fd) \<and>
   health_data (fst (map_section np fd)) = health_data fd \<and>
   env_data np (fst (map_section np fd)) = env_data np fd \<and>
   pie_data (fst (map_section np fd)) = pie_data fd"
proof -
  have "filtered_data data c = data\<lparr>rows := rows (filtered_data data c)\<rparr>"
    by (simp add: filtered_data_def getitem_mask_def)
  then have a: "filtered_data data c = data\<lparr>rows := filter (matches c) (rows data)\<rparr>"
    by (simp only: rows_filtered_data)
  have b: "fst (map_section np fd) =
     (if empty fd then fd
      else \<lparr>columns = add_label ''color'' (columns fd),
            rows = map (\<lambda>r. r\<lparr>color := Some (severity_color (Health_Impact r))\<rparr>) (rows fd)\<rparr>)"
    by (simp add: map_section_eq)
  have c: "length (rows (fst (map_section np fd))) = length (rows fd)"
    by (simp add: rows_map_section)
  have d: "map (\<lambda>r. r\<lparr>color := None\<rparr>) (rows (fst (map_section np fd))) =
     map (\<lambda>r. r\<lparr>color := None\<rparr>) (rows fd)"
    by (simp add: rows_map_section comp_def)
  from a b c d charts_map_section show ?thesis by blast
qed

text \<open>
  A dataset with a row for Atlantis whose health impact is blank. Under the default
  selection the row is in the view, and the category counts hold the one label of the
  other row and nothing for the row of Atlantis.
\<close>

theorem unmapped_null_label_not_counted:
  "sidebar atlantis_blank_data default_widgets = Inr atlantis_blank_criteria \<and>
   map (\<lambda>r. (Entity r, Health_Impact r))
     (rows (filtered_data atlantis_blank_data atlantis_blank_criteria)) =
     [(''Atlantis'', None), (''Belgium'', Some ''Low'')] \<and>
   dashboard exact_floats atlantis_blank_data atlantis_blank_criteria =
     Inr \<lparr>map_element =
            snd (map_section exact_floats
                   (filtered_data atlantis_blank_data atlantis_blank_criteria)),
          health_chart = [(2015, 3), (2019, 7)],
          env_chart = [(2015, 1), (2019, 2)],
          pie_chart = [''Low'' \<mapsto> 1]\<rparr>"
proof -
  let ?v = "filtered_data atlantis_blank_data atlantis_blank_criteria"
  have s: "sidebar atlantis_blank_data default_widgets = Inr atlantis_blank_criteria"
    by (simp add: sidebar_def atlantis_blank_data_def atlantis_blank_criteria_def
        default_widgets_def getitem_def series_min_def series_max_def unique_def mk_row_def
        csv_columns_def)
  have v: "rows ?v = rows atlantis_blank_data"
    by (simp add: rows_filtered_data matches_def atlantis_blank_data_def
        atlantis_blank_criteria_def mk_row_def)
  have e: "map (\<lambda>r. (Entity r, Health_Impact r)) (rows ?v) =
      [(''Atlantis'', None), (''Belgium'', Some ''Low'')]"
    unfolding v by (simp add: atlantis_blank_data_def mk_row_def)
  have h: "health_data ?v = [(2015, 3), (2019, 7)]"
    by (simp add: health_data_def groupby_agg_def getitem_def v)
       (simp add: atlantis_blank_data_def mk_row_def)
  have d: "env_data exact_floats ?v = [(2015, 1), (2019, 2)]"
    by (simp add: env_data_def groupby_agg_def getitem_def v)
       (simp add: atlantis_blank_data_def mk_row_def exact_floats_def)
  have hs: "map Health_Impact (rows ?v) = [None, Some ''Low'']"
    unfolding v by (simp add: atlantis_blank_data_def mk_row_def)
  have p: "pie_data ?v = [''Low'' \<mapsto> 1]"
    by (auto simp: pie_data_def getitem_def hs value_counts_def fun_eq_iff)
  have "dashboard exact_floats atlantis_blank_data atlantis_blank_criteria =
     Inr \<lparr>map_element = snd (map_section exact_floats ?v), health_chart = health_data ?v,
          env_chart = env_data exact_floats ?v, pie_chart = pie_data ?v\<rparr>"
    by (simp add: dashboard_eq discharges_label_def)
       (simp add: atlantis_blank_data_def csv_columns_def)
  with s e h d p show ?thesis by simp
qed

text \<open>
  Claim C8, as the script has it, the markers being those of the renderer as the
  specification describes it. A row of the geocoded dataset whose entity is not in
  the coordinate table has null latitude and longitude. On the page of the dashboard
  every marker of the map belongs to an entity of the table, so the row has none. When
  the row satisfies the selection it is in the view and is handed to the map layer with
  the other rows; it is counted in both time series, the sums of its year being made of
  its own values and those of the other rows of that year; and it is counted under its
  health impact, whose count is one more than the count among the other rows, unless
  its health impact is null: then no category counts it.
\<close>

theorem unmapped_entity_row:
  assumes "data_geocoded df = Inr data" and "r \<in> set (rows data)"
    and "Entity r \<notin> dom country_coords" and "dashboard np data c = Inr p"
  shows "latitude r = None \<and> longitude r = None \<and>
     (\<forall>m\<in>set (markers (map_element p)). Entity m \<in> dom country_coords) \<and>
     r\<lparr>color := Some (severity_color (Health_Impact r))\<rparr> \<notin> set (markers (map_element p)) \<and>
     (matches c r \<longrightarrow>
        r \<in> set (rows (filtered_data data c)) \<and>
        r\<lparr>color := Some (severity_color (Health_Impact r))\<rparr> \<in> set (map_rows (map_element p)) \<and>
        map_of (health_chart p) (Year r) =
          Some (Premature_Death_Count r +
                sum_list (map Premature_Death_Count
                  (filter (\<lambda>x. Year x = Year r) (remove1 r (rows (filtered_data data c)))))) \<and>
        map_of (env_chart p) (Year r) =
          Some (float_sum np (map Total_discharges
                  (filter (\<lambda>x. Year x = Year r) (rows (filtered_data data c))))) \<and>
        r \<in> set (filter (\<lambda>x. Year x = Year r) (rows (filtered_data data c))) \<and>
        (\<forall>h. Health_Impact r = Some h \<longrightarrow>
           pie_chart p h =
             Some (Suc (length (filter (\<lambda>x. Health_Impact x = Some h)
                                  (remove1 r (rows (filtered_data data c))))))) \<and>
        (Health_Impact r = None \<longrightarrow>
           (\<Sum>h\<in>dom (pie_chart p). the (pie_chart p h)) =
             length (filter (\<lambda>x. Health_Impact x \<noteq> None)
                       (remove1 r (rows (filtered_data data c))))))"
proof -
  let ?v = "rows (filtered_data data c)"
  let ?rc = "r\<lparr>color := Some (severity_color (Health_Impact r))\<rparr>"
  note g = geocoded_frame [OF assms(1)]
  from assms(4) have p: "p = \<lparr>map_element = snd (map_section np (filtered_data data c)),
                health_chart = health_data (filtered_data data c),
                env_chart = env_data np (filtered_data data c),
                pie_chart = pie_data (filtered_data data c)\<rparr>"
    by (auto simp: dashboard_eq split: if_splits)
  have coded: "(latitude x \<noteq> None) = (Entity x \<in> dom country_coords)" if "x \<in> set (rows data)" for x
    using that unfolding g(3) by auto
  have lat: "latitude r = None"
    using coded [OF assms(2)] assms(3) by simp
  have lon: "longitude r = None"
    using assms(2,3) unfolding g(3) by auto
  have layer: "set (map_rows (map_element p)) \<subseteq>
      (\<lambda>x. x\<lparr>color := Some (severity_color (Health_Impact x))\<rparr>) ` set ?v"
    by (simp add: p map_rows_map_section)
  have mk: "Entity m \<in> dom country_coords" if "m \<in> set (markers (map_element p))" for m
  proof -
    from that have pos: "latitude m \<noteq> None" and "m \<in> set (map_rows (map_element p))"
      by (simp_all add: markers_def)
    with layer obtain x where x: "x \<in> set ?v" "m = x\<lparr>color := Some (severity_color (Health_Impact x))\<rparr>"
      by auto
    then have "x \<in> set (rows data)" by (simp add: rows_filtered_data)
    from coded [OF this] pos x show ?thesis by simp
  qed
  have nomark: "?rc \<notin> set (markers (map_element p))"
    using lat by (simp add: markers_def)
  have counted: "r \<in> set ?v \<and> ?rc \<in> set (map_rows (map_element p)) \<and>
        map_of (health_chart p) (Year r) =
          Some (Premature_Death_Count r +
                sum_list (map Premature_Death_Count (filter (\<lambda>x. Year x = Year r) (remove1 r ?v)))) \<and>
        map_of (env_chart p) (Year r) =
          Some (float_sum np (map Total_discharges (filter (\<lambda>x. Year x = Year r) ?v))) \<and>
        r \<in> set (filter (\<lambda>x. Year x = Year r) ?v) \<and>
        (\<forall>h. Health_Impact r = Some h \<longrightarrow>
           pie_chart p h =
             Some (Suc (length (filter (\<lambda>x. Health_Impact x = Some h) (remove1 r ?v))))) \<and>
        (Health_Impact r = None \<longrightarrow>
           (\<Sum>h\<in>dom (pie_chart p). the (pie_chart p h)) =
             length (filter (\<lambda>x. Health_Impact x \<noteq> None) (remove1 r ?v)))"
    if m: "matches c r"
  proof -
    have inv: "r \<in> set ?v"
      using assms(2) m by (simp add: rows_filtered_data)
    have "''Entity'' \<in> set (columns data)"
      using g(1,2) by simp
    then have "columns data \<noteq> []" by auto
    with inv have ne: "\<not> empty (filtered_data data c)"
      by (auto simp: empty_def columns_filtered_data)
    have inmap: "?rc \<in> set (map_rows (map_element p))"
      using ne inv by (simp add: p map_rows_map_section)
    have h: "map_of (health_chart p) (Year r) =
          Some (Premature_Death_Count r +
                sum_list (map Premature_Death_Count (filter (\<lambda>x. Year x = Year r) (remove1 r ?v))))"
      using inv sum_list_filter_remove1 [of r ?v "\<lambda>x. Year x = Year r" Premature_Death_Count]
      by (simp add: p health_data_def groupby_agg_lookup)
    have e: "map_of (env_chart p) (Year r) =
          Some (float_sum np (map Total_discharges (filter (\<lambda>x. Year x = Year r) ?v)))"
      using inv by (simp add: p env_data_def groupby_agg_lookup)
    have y: "r \<in> set (filter (\<lambda>x. Year x = Year r) ?v)"
      using inv by simp
    have c1: "pie_chart p h =
             Some (Suc (length (filter (\<lambda>x. Health_Impact x = Some h) (remove1 r ?v))))"
      if "Health_Impact r = Some h" for h
      using that inv length_filter_remove1 [of r ?v "\<lambda>x. Health_Impact x = Some h"]
      by (simp add: p pie_data_def value_counts_def getitem_def count_list_map_filter)
         force
    have c2: "(\<Sum>h\<in>dom (pie_chart p). the (pie_chart p h)) =
             length (filter (\<lambda>x. Health_Impact x \<noteq> None) (remove1 r ?v))"
      if n: "Health_Impact r = None"
    proof -
      have "(\<Sum>h\<in>dom (pie_chart p). the (pie_chart p h)) =
          length (filter (\<lambda>v. v \<noteq> None) (map Health_Impact ?v))"
        by (simp add: p pie_data_def getitem_def value_counts_total)
      also have "\<dots> = length (filter (\<lambda>x. Health_Impact x \<noteq> None) ?v)"
        by (simp add: filter_map comp_def)
      also have "\<dots> = length (filter (\<lambda>x. Health_Impact x \<noteq> None) (remove1 r ?v))"
        using n by (simp add: filter_remove1_other)
      finally show ?thesis .
    qed
    from inv inmap h e y c1 c2 show ?thesis by blast
  qed
  from lat lon mk nomark counted show ?thesis by blast
qed

theorem unmapped_entity_row_witness:
  "data_geocoded atlantis_csv = Inr atlantis_data \<and>
   hd (rows atlantis_data) \<in> set (rows atlantis_data) \<and>
   Entity (hd (rows atlantis_data)) = ''Atlantis'' \<and>
   ''Atlantis'' \<notin> dom country_coords \<and>
   matches atlantis_criteria (hd (rows atlantis_data)) \<and>
   Health_Impact (hd (rows atlantis_data)) = Some ''High'' \<and>
   latitude (hd (rows atlantis_data)) = None \<and>
   longitude (hd (rows atlantis_data)) = None \<and>
   map Entity (map_rows (snd (map_section exact_floats
     (filtered_data atlantis_data atlantis_criteria)))) = [''Atlantis'', ''Belgium''] \<and>
   map Entity (markers (snd (map_section exact_floats
     (filtered_data atlantis_data atlantis_criteria)))) = [''Belgium''] \<and>
   (hd (rows atlantis_data))\<lparr>color := Some [255, 0, 0, 160]\<rparr>
     \<notin> set (markers (snd (map_section exact_floats
           (filtered_data atlantis_data atlantis_criteria)))) \<and>
   map_of (health_data (filtered_data atlantis_data atlantis_criteria)) 2015 = Some 3 \<and>
   map_of (env_data exact_floats (filtered_data atlantis_data atlantis_criteria)) 2015 = Some 1 \<and>
   pie_data (filtered_data atlantis_data atlantis_criteria) ''High'' = Some 1"
proof -
  let ?r = "hd (rows atlantis_data)"
  let ?fd = "filtered_data atlantis_data atlantis_criteria"
  let ?v = "rows ?fd"
  let ?p = "\<lparr>map_element = snd (map_section exact_floats ?fd), health_chart = health_data ?fd,
             env_chart = env_data exact_floats ?fd, pie_chart = pie_data ?fd\<rparr>"
  have r: "?r = (mk_row ''Atlantis'' 2015 (Some ''High'') 3 1)\<lparr>latitude := None, longitude := None\<rparr>"
    by (simp add: atlantis_data_def)
  have a1: "data_geocoded atlantis_csv = Inr atlantis_data" by (rule atlantis_geocoded)
  have a2: "?r \<in> set (rows atlantis_data)" by (simp add: atlantis_data_def)
  have e: "Entity ?r = ''Atlantis''" by (simp add: r mk_row_def)
  have d: "''Atlantis'' \<notin> dom country_coords" by (simp add: country_coords_def)
  have a3: "Entity ?r \<notin> dom country_coords" using d e by simp
  have a4: "dashboard exact_floats atlantis_data atlantis_criteria = Inr ?p"
    by (simp add: dashboard_eq discharges_label_def)
       (simp add: atlantis_data_def csv_columns_def)
  have m: "matches atlantis_criteria ?r"
    by (simp add: r matches_def atlantis_criteria_def mk_row_def)
  have rest: "remove1 ?r ?v =
      [(mk_row ''Belgium'' 2019 (Some ''Low'') 7 2)\<lparr>latitude := Some 50.5039, longitude := Some 4.4699\<rparr>]"
    by (simp add: atlantis_view) (simp add: atlantis_data_def)
  have f: "Year ?r = 2015" "Health_Impact ?r = Some ''High''" "Premature_Death_Count ?r = 3"
    "Total_discharges ?r = 1"
    by (simp_all add: r mk_row_def)
  have mr: "map_rows (snd (map_section exact_floats ?fd)) =
      map (\<lambda>r. r\<lparr>color := Some (severity_color (Health_Impact r))\<rparr>) (rows atlantis_data)"
    by (simp add: map_rows_map_section atlantis_view_not_empty atlantis_view)
  have rows: "map Entity (map_rows (snd (map_section exact_floats ?fd))) = [''Atlantis'', ''Belgium'']"
    "map Entity (markers (snd (map_section exact_floats ?fd))) = [''Belgium'']"
    unfolding markers_def mr
    by (simp_all add: atlantis_data_def mk_row_def del: not_None_eq)
  note t = unmapped_entity_row [OF a1 a2 a3 a4]
  from t have l: "latitude ?r = None" "longitude ?r = None" by blast+
  from t have "?r\<lparr>color := Some (severity_color (Health_Impact ?r))\<rparr>
       \<notin> set (markers (map_element ?p))" by blast
  then have nm: "?r\<lparr>color := Some [255, 0, 0, 160]\<rparr>
       \<notin> set (markers (snd (map_section exact_floats ?fd)))"
    by (simp add: f severity_color_def)
  from t m have "map_of (health_chart ?p) (Year ?r) =
       Some (Premature_Death_Count ?r +
             sum_list (map Premature_Death_Count (filter (\<lambda>x. Year x = Year ?r) (remove1 ?r ?v))))"
    by blast
  then have h: "map_of (health_data ?fd) 2015 = Some 3"
    unfolding rest f by (simp add: mk_row_def)
  from t m have "map_of (env_chart ?p) (Year ?r) =
       Some (float_sum exact_floats (map Total_discharges (filter (\<lambda>x. Year x = Year ?r) ?v)))"
    by blast
  then have en: "map_of (env_data exact_floats ?fd) 2015 = Some 1"
    unfolding f atlantis_view by (simp add: atlantis_data_def mk_row_def exact_floats_def)
  from t m f(2) have "pie_chart ?p ''High'' =
       Some (Suc (length (filter (\<lambda>x. Health_Impact x = Some ''High'') (remove1 ?r ?v))))"
    by blast
  then have pc: "pie_data ?fd ''High'' = Some 1"
    unfolding rest by (simp add: mk_row_def)
  from a1 a2 e d m f(2) l rows nm h en pc show ?thesis by blast
qed

end
